theory Spec2Isabelle
  imports Complex_Main "HOL-Library.Product_Lexorder"
begin

section \<open>Retail write-off service (services/sending\_retail.py)\<close>

subsection \<open>Data model\<close>

text \<open>
  One row of the stock data frame, as \<open>prepare_invoices\<close> sees it after the two
  coercions it applies cell by cell:
  \<^item> \<open>countPu\<close> is the cell after \<open>pd.to_numeric(errors='coerce')\<close>: \<open>None\<close> is NaN
    (a missing or non-numeric cell). Quantities are exact rationals; floating-point
    rounding of pandas' sums is not modelled.
  \<^item> \<open>validFrom\<close> is the cell after \<open>pd.to_datetime(utc=True, errors='coerce')\<close>:
    an instant on an integer time line, \<open>None\<close> is NaT (missing or unparseable).
  \<^item> \<open>batchId\<close>, \<open>patId\<close>, \<open>warehouseId\<close>, \<open>contractorId\<close> are integer identifiers,
    \<open>None\<close> is a null cell.
  \<^item> \<open>note_written_off\<close> is the result of
    the case-insensitive \<open>str.contains\<close> search for the write-off marker in the row's note:
    \<open>False\<close> when the data frame has no note column or the note does not match.
\<close>

record stock_row =
  countPu :: "rat option"
  batchId :: "int option"
  patId :: "int option"
  warehouseId :: "int option"
  contractorId :: "int option"
  validFrom :: "int option"
  note_written_off :: bool

text \<open>A row of \<open>batch_groups\<close>: the group key columns and the aggregated columns.\<close>

record batch_group =
  g_batchId :: int
  g_patId :: int
  g_warehouseId :: int
  g_contractorId :: int
  g_countPu :: rat
  g_validFrom :: "int option"

text \<open>An element of \<open>tbrDtoList\<close>.\<close>

record invoice_line =
  line_batchId :: int
  countPuSent :: rat

text \<open>
  The payload built by \<open>create_invoice_payload\<close>. \<open>docNum\<close> is the pair of the date
  string and the counter value that the source formats as \<open>date-NNN\<close>; \<open>docNote\<close> and
  \<open>name\<close> only repeat the length of \<open>tbrDtoList\<close> and the constant envelope fields are
  left out.
\<close>

record invoice =
  docNum :: "string \<times> nat"
  docDate :: string
  receiverContractorId :: int
  sourceWarehouseId :: int
  tbrDtoList :: "invoice_line list"

text \<open>
  The wall clock is an input: \<open>clk c\<close> gives the two readings taken by the call of
  \<open>create_invoice_payload\<close> that runs with counter value \<open>c\<close>, the UTC instant in ISO
  format and the local date as \<open>%Y%m%d\<close>.
\<close>

type_synonym clock = "nat \<Rightarrow> string \<times> string"

text \<open>
  The mutable state of the invoice-forming loop: the list \<open>invoices\<close>, the list
  \<open>current_items\<close> and the class attribute \<open>InvoiceCounter._counter\<close>.
\<close>

record build_state =
  invoices :: "invoice list"
  current_items :: "invoice_line list"
  counter :: nat

subsection \<open>Filtering, sorting and grouping\<close>

definition positive_count :: "stock_row \<Rightarrow> bool" where
  "positive_count r = (case countPu r of None \<Rightarrow> False | Some q \<Rightarrow> 0 < q)"

definition filter_rows :: "stock_row list \<Rightarrow> stock_row list" where
  "filter_rows df =
     filter (\<lambda>r. \<not> note_written_off r) (filter positive_count df)"

text \<open>
  \<open>sort_values\<close> keeps the default \<open>na_position='last'\<close>: in each sort column a null
  compares above every value. The sort is stable.
\<close>

definition na_last :: "int option \<Rightarrow> bool \<times> int" where
  "na_last v = (case v of None \<Rightarrow> (True, 0) | Some x \<Rightarrow> (False, x))"

definition fifo_key :: "stock_row \<Rightarrow> (bool \<times> int) \<times> (bool \<times> int)" where
  "fifo_key r = (na_last (validFrom r), na_last (batchId r))"

definition sort_values :: "stock_row list \<Rightarrow> stock_row list" where
  "sort_values df = sort_key fifo_key df"

text \<open>
  \<open>groupby(group_columns)\<close> keeps its defaults \<open>sort=True\<close> and \<open>dropna=True\<close>: a row
  with a null in a key column belongs to no group, and the groups come out in ascending
  order of the key tuple.
\<close>

definition group_key :: "stock_row \<Rightarrow> (int \<times> int \<times> int \<times> int) option" where
  "group_key r =
     (case batchId r of None \<Rightarrow> None | Some b \<Rightarrow>
     (case patId r of None \<Rightarrow> None | Some p \<Rightarrow>
     (case warehouseId r of None \<Rightarrow> None | Some w \<Rightarrow>
     (case contractorId r of None \<Rightarrow> None | Some c \<Rightarrow> Some (b, p, w, c)))))"

definition group_keys :: "stock_row list \<Rightarrow> (int \<times> int \<times> int \<times> int) list" where
  "group_keys df = sort (remdups (List.map_filter group_key df))"

definition members :: "stock_row list \<Rightarrow> int \<times> int \<times> int \<times> int \<Rightarrow> stock_row list" where
  "members df k = filter (\<lambda>r. group_key r = Some k) df"

text \<open>Aggregation \<open>'sum'\<close>: nulls count as nothing.\<close>

definition count_or_zero :: "stock_row \<Rightarrow> rat" where
  "count_or_zero r = (case countPu r of None \<Rightarrow> 0 | Some q \<Rightarrow> q)"

text \<open>Aggregation \<open>'min'\<close>: nulls are skipped, a group of nulls only gives a null.\<close>

fun min_skipna :: "int option list \<Rightarrow> int option" where
  "min_skipna [] = None"
| "min_skipna (None # vs) = min_skipna vs"
| "min_skipna (Some v # vs) =
     (case min_skipna vs of None \<Rightarrow> Some v | Some m \<Rightarrow> Some (min v m))"

definition agg_group :: "stock_row list \<Rightarrow> int \<times> int \<times> int \<times> int \<Rightarrow> batch_group" where
  "agg_group df k =
     (case k of (b, p, w, c) \<Rightarrow>
        \<lparr>g_batchId = b, g_patId = p, g_warehouseId = w, g_contractorId = c,
         g_countPu = sum_list (map count_or_zero (members df k)),
         g_validFrom = min_skipna (map validFrom (members df k))\<rparr>)"

definition groupby_agg :: "stock_row list \<Rightarrow> batch_group list" where
  "groupby_agg df = map (agg_group df) (group_keys df)"

text \<open>The data frame \<open>batch_groups\<close> of \<open>prepare_invoices\<close>.\<close>

definition batch_groups :: "stock_row list \<Rightarrow> batch_group list" where
  "batch_groups df = groupby_agg (sort_values (filter_rows df))"

subsection \<open>Forming the invoices\<close>

definition create_invoice_payload ::
  "clock \<Rightarrow> invoice_line list \<Rightarrow> batch_group \<Rightarrow> nat \<Rightarrow> invoice \<times> nat" where
  "create_invoice_payload clk items row c =
     (\<lparr>docNum = (snd (clk c), c), docDate = fst (clk c),
       receiverContractorId = g_contractorId row,
       sourceWarehouseId = g_warehouseId row,
       tbrDtoList = items\<rparr>, c + 1)"

text \<open>
  The two statements \<open>invoices.append(create_invoice_payload(current_items, row))\<close>
  and \<open>current_items = []\<close>, which the source always runs together.
\<close>

definition close_invoice :: "clock \<Rightarrow> batch_group \<Rightarrow> build_state \<Rightarrow> build_state" where
  "close_invoice clk row s =
     (case create_invoice_payload clk (current_items s) row (counter s) of
        (payload, c) \<Rightarrow> \<lparr>invoices = invoices s @ [payload], current_items = [], counter = c\<rparr>)"

text \<open>
  The inner \<open>while remaining_quantity > 0\<close> loop for one row of \<open>batch_groups\<close>. The
  loop need not end, so the result is an option: \<open>None\<close> is a loop that runs forever.
\<close>

partial_function (option) place_batch ::
  "clock \<Rightarrow> int \<Rightarrow> batch_group \<Rightarrow> rat \<Rightarrow> build_state \<Rightarrow> build_state option" where
  "place_batch clk items_per_invoice row remaining_quantity s =
     (if 0 < remaining_quantity then
        (if 0 < items_per_invoice - int (length (current_items s)) then
           (let s1 = s\<lparr>current_items := current_items s @
                        [\<lparr>line_batchId = g_batchId row, countPuSent = remaining_quantity\<rparr>]\<rparr>;
                s2 = (if items_per_invoice \<le> int (length (current_items s1))
                      then close_invoice clk row s1 else s1)
            in place_batch clk items_per_invoice row 0 s2)
         else if current_items s \<noteq> []
           then place_batch clk items_per_invoice row remaining_quantity (close_invoice clk row s)
           else place_batch clk items_per_invoice row remaining_quantity s)
      else Some s)"

text \<open>The outer \<open>for _, row in batch_groups.iterrows()\<close> loop.\<close>

fun walk_groups ::
  "clock \<Rightarrow> int \<Rightarrow> batch_group list \<Rightarrow> build_state \<Rightarrow> build_state option" where
  "walk_groups clk items_per_invoice [] s = Some s"
| "walk_groups clk items_per_invoice (row # rest) s =
     (case place_batch clk items_per_invoice row (g_countPu row) s of
        None \<Rightarrow> None
      | Some s' \<Rightarrow> walk_groups clk items_per_invoice rest s')"

text \<open>The loop followed by the closing of the last, under-filled invoice.\<close>

definition form_invoices ::
  "clock \<Rightarrow> int \<Rightarrow> batch_group list \<Rightarrow> nat \<Rightarrow> build_state option" where
  "form_invoices clk items_per_invoice groups c =
     (case walk_groups clk items_per_invoice groups
             \<lparr>invoices = [], current_items = [], counter = c\<rparr> of
        None \<Rightarrow> None
      | Some s \<Rightarrow>
          Some (if current_items s \<noteq> [] then close_invoice clk (last groups) s else s))"

text \<open>
  Python's slice \<open>xs[:n]\<close>: a negative \<open>n\<close> counts from the end. The guard
  \<open>if max_invoices:\<close> is false for \<open>None\<close> and for \<open>0\<close>.
\<close>

definition py_slice_to :: "int \<Rightarrow> 'a list \<Rightarrow> 'a list" where
  "py_slice_to n xs =
     (if 0 \<le> n then take (nat n) xs else take (nat (int (length xs) + n)) xs)"

definition limit_invoices :: "int option \<Rightarrow> invoice list \<Rightarrow> invoice list" where
  "limit_invoices max_invoices invs =
     (case max_invoices of
        None \<Rightarrow> invs
      | Some n \<Rightarrow> if n \<noteq> 0 then py_slice_to n invs else invs)"

text \<open>
  \<open>prepare_invoices\<close>, started with the counter at \<open>c\<close>: the invoices it returns and the
  counter it leaves behind, or \<open>None\<close> when it does not return.
\<close>

definition prepare_invoices ::
  "clock \<Rightarrow> nat \<Rightarrow> stock_row list \<Rightarrow> int \<Rightarrow> int option \<Rightarrow> (invoice list \<times> nat) option" where
  "prepare_invoices clk c df items_per_invoice max_invoices =
     (if filter_rows df = [] then Some ([], c)
      else
        (case form_invoices clk items_per_invoice (batch_groups df) c of
           None \<Rightarrow> None
         | Some s \<Rightarrow> Some (limit_invoices max_invoices (invoices s), counter s)))"

subsection \<open>Submitting the invoices\<close>

text \<open>
  The remote API is an input. A request is either the creation of a draft from an
  invoice payload or \<open>create_retail_payload\<close> for a draft id. The answer to a request is
  \<^item> \<open>Request_Failed\<close>: \<open>requests.post\<close> or \<open>raise_for_status\<close> raised a
    \<open>RequestException\<close>;
  \<^item> \<open>Other_Failure\<close>: handling the answer raised any other exception;
  \<^item> \<open>Reply v\<close>: a JSON body, where \<open>v\<close> is \<open>resData.id\<close> when the body has it.
  \<open>net n rq\<close> is the answer to request \<open>rq\<close> when \<open>n\<close> requests were issued before it.
\<close>

datatype request = Create_Draft invoice | Send_To_Retail int

datatype response = Request_Failed | Other_Failure | Reply "int option"

type_synonym network = "nat \<Rightarrow> request \<Rightarrow> response"

datatype status = Created_And_Sent | Network_Error | Error

text \<open>
  An entry of \<open>results\<close>; the time stamp and the error text of the source's entries are
  left out.
\<close>

record submission_result =
  res_docNum :: "string \<times> nat"
  res_status :: status
  res_invoice_id :: "int option"
  res_items_count :: "nat option"

text \<open>The list \<open>results\<close> and the trace of the requests issued so far.\<close>

record submit_state =
  results :: "submission_result list"
  requests :: "request list"

definition post :: "network \<Rightarrow> submit_state \<Rightarrow> request \<Rightarrow> response \<times> submit_state" where
  "post net s rq = (net (length (requests s)) rq, s\<lparr>requests := requests s @ [rq]\<rparr>)"

definition record_result ::
  "submit_state \<Rightarrow> string \<times> nat \<Rightarrow> status \<Rightarrow> int option \<Rightarrow> nat option \<Rightarrow> submit_state" where
  "record_result s doc_num st iid cnt =
     s\<lparr>results := results s @
        [\<lparr>res_docNum = doc_num, res_status = st, res_invoice_id = iid,
          res_items_count = cnt\<rparr>]\<rparr>"

text \<open>One turn of the loop \<open>for idx, inv_payload in enumerate(invoices, start=1)\<close>.\<close>

definition submit_invoice :: "network \<Rightarrow> submit_state \<Rightarrow> invoice \<Rightarrow> submit_state" where
  "submit_invoice net s inv_payload =
     (case post net s (Create_Draft inv_payload) of
        (Request_Failed, s1) \<Rightarrow> record_result s1 (docNum inv_payload) Network_Error None None
      | (Other_Failure, s1) \<Rightarrow> record_result s1 (docNum inv_payload) Error None None
      | (Reply None, s1) \<Rightarrow> record_result s1 (docNum inv_payload) Error None None
      | (Reply (Some invoice_id), s1) \<Rightarrow>
          (case post net s1 (Send_To_Retail invoice_id) of
             (Request_Failed, s2) \<Rightarrow>
               record_result s2 (docNum inv_payload) Network_Error None None
           | (Other_Failure, s2) \<Rightarrow> record_result s2 (docNum inv_payload) Error None None
           | (Reply v, s2) \<Rightarrow>
               record_result s2 (docNum inv_payload) Created_And_Sent (Some invoice_id)
                 (Some (length (tbrDtoList inv_payload)))))"

text \<open>
  What \<open>run_retail_write_off_service\<close> returns, the pair \<open>(invoices, results)\<close>, together
  with the requests it issued; \<open>None\<close> when it does not return. The counter is reset to
  1 before \<open>prepare_invoices\<close> runs.
\<close>

record service_outcome =
  out_invoices :: "invoice list"
  out_results :: "submission_result list"
  out_requests :: "request list"

definition run_retail_write_off_service ::
  "network \<Rightarrow> clock \<Rightarrow> stock_row list \<Rightarrow> int \<Rightarrow> int option \<Rightarrow> bool \<Rightarrow> service_outcome option" where
  "run_retail_write_off_service net clk df items_per_invoice max_invoices execute =
     (case prepare_invoices clk 1 df items_per_invoice max_invoices of
        None \<Rightarrow> None
      | Some (invs, c) \<Rightarrow>
          if invs = [] then
            Some \<lparr>out_invoices = [], out_results = [], out_requests = []\<rparr>
          else if \<not> execute then
            Some \<lparr>out_invoices = invs, out_results = [], out_requests = []\<rparr>
          else
            (let s = foldl (submit_invoice net) \<lparr>results = [], requests = []\<rparr> invs
             in Some \<lparr>out_invoices = invs, out_results = results s,
                      out_requests = requests s\<rparr>))"

section \<open>Delivery notifier (services/reciving\_inv.py)\<close>

subsection \<open>Data model\<close>

text \<open>
  A cell of the fetched table: null (\<open>None\<close>, NaN or a column that is not there, for
  which \<open>row.get\<close> gives \<open>None\<close>), a number or a string of ASCII characters.
\<close>

datatype cell = Null | Num int | Str string

record delivery_row =
  row_id :: cell
  row_destinationWarehouseId :: cell

text \<open>The body of a notify-delivered request; its time stamp is left out.\<close>

record notify_request =
  oid :: cell
  destinationWarehouseId :: int

text \<open>
  What a call of \<open>notify_delivered\<close> comes back with: an exception, or the status code of
  the response. \<open>net n rq\<close> is the remote side's answer to \<open>rq\<close> when \<open>n\<close> requests
  were posted before it.
\<close>

datatype outcome = Raised | Status nat

type_synonym notify_network = "nat \<Rightarrow> notify_request \<Rightarrow> outcome"

text \<open>
  The three counters of \<open>InvoiceService\<close>, with the trace of the calls of
  \<open>notify_delivered\<close> (its two arguments) and of the requests posted.
\<close>

record service =
  success_count :: nat
  error_count :: nat
  skipped_count :: nat
  attempts :: "(cell \<times> cell) list"
  sent :: "notify_request list"

definition new_service :: service where
  "new_service =
     \<lparr>success_count = 0, error_count = 0, skipped_count = 0, attempts = [], sent = []\<rparr>"

subsection \<open>Python's \<open>int()\<close>\<close>

definition is_digit :: "char \<Rightarrow> bool" where
  "is_digit ch = (48 \<le> (of_char ch :: nat) \<and> (of_char ch :: nat) \<le> 57)"

definition digit_val :: "char \<Rightarrow> nat" where
  "digit_val ch = of_char ch - 48"

definition is_space :: "char \<Rightarrow> bool" where
  "is_space ch =
     ((9 \<le> (of_char ch :: nat) \<and> (of_char ch :: nat) \<le> 13) \<or>
      (28 \<le> (of_char ch :: nat) \<and> (of_char ch :: nat) \<le> 32))"

text \<open>Digits after the first one; single underscores may separate digits.\<close>

fun more_digits :: "nat \<Rightarrow> string \<Rightarrow> nat option" where
  "more_digits acc [] = Some acc"
| "more_digits acc [ch] =
     (if is_digit ch then Some (10 * acc + digit_val ch) else None)"
| "more_digits acc (ch # d # rest) =
     (if is_digit ch then more_digits (10 * acc + digit_val ch) (d # rest)
      else if ch = CHR ''_'' \<and> is_digit d then more_digits (10 * acc + digit_val d) rest
      else None)"

definition unsigned_int :: "string \<Rightarrow> nat option" where
  "unsigned_int s =
     (case s of
        [] \<Rightarrow> None
      | ch # rest \<Rightarrow> if is_digit ch then more_digits (digit_val ch) rest else None)"

definition strip :: "string \<Rightarrow> string" where
  "strip s = rev (dropWhile is_space (rev (dropWhile is_space s)))"

definition int_of_string :: "string \<Rightarrow> int option" where
  "int_of_string s =
     (case strip s of
        [] \<Rightarrow> None
      | ch # rest \<Rightarrow>
          if ch = CHR ''-'' then map_option (\<lambda>n. - int n) (unsigned_int rest)
          else if ch = CHR ''+'' then map_option int (unsigned_int rest)
          else map_option int (unsigned_int (ch # rest)))"

text \<open>\<open>int(x)\<close> on a cell; \<open>None\<close> is the exception it raises.\<close>

definition py_int :: "cell \<Rightarrow> int option" where
  "py_int x = (case x of Null \<Rightarrow> None | Num n \<Rightarrow> Some n | Str s \<Rightarrow> int_of_string s)"

subsection \<open>The service\<close>

definition isna :: "cell \<Rightarrow> bool" where
  "isna x = (x = Null)"

text \<open>
  \<open>notify_delivered\<close>: the payload is built first, and \<open>int(destination_warehouse_id)\<close>
  may raise there, before anything is posted.
\<close>

definition notify_delivered ::
  "notify_network \<Rightarrow> service \<Rightarrow> cell \<Rightarrow> cell \<Rightarrow> outcome \<times> service" where
  "notify_delivered net s invoice_id destination_warehouse_id =
     (let s1 = s\<lparr>attempts := attempts s @ [(invoice_id, destination_warehouse_id)]\<rparr>
      in case py_int destination_warehouse_id of
           None \<Rightarrow> (Raised, s1)
         | Some w \<Rightarrow>
             (net (length (sent s1)) \<lparr>oid = invoice_id, destinationWarehouseId = w\<rparr>,
              s1\<lparr>sent := sent s1 @ [\<lparr>oid = invoice_id, destinationWarehouseId = w\<rparr>]\<rparr>))"

text \<open>The value of \<open>dest_wh\<close> after the \<open>if\<close> statement of the loop body.\<close>

definition dest_wh_of :: "delivery_row \<Rightarrow> cell" where
  "dest_wh_of row =
     (if isna (row_id row) \<or> isna (row_destinationWarehouseId row)
         \<or> row_destinationWarehouseId row = Num 0
         \<or> row_destinationWarehouseId row = Str ''0''
      then Num 1085300 else row_destinationWarehouseId row)"

text \<open>The body of the loop \<open>for idx, row in df.iterrows()\<close>.\<close>

definition notify_row :: "notify_network \<Rightarrow> service \<Rightarrow> delivery_row \<Rightarrow> service" where
  "notify_row net s row =
     (case notify_delivered net s (row_id row) (dest_wh_of row) of
        (Status code, s1) \<Rightarrow>
          if code = 200 then s1\<lparr>success_count := success_count s1 + 1\<rparr>
          else s1\<lparr>error_count := error_count s1 + 1\<rparr>
      | (Raised, s1) \<Rightarrow> s1\<lparr>error_count := error_count s1 + 1\<rparr>)"

text \<open>
  \<open>run\<close> on the table that \<open>fetch_invoices\<close> returned; \<open>fetched = None\<close> is a fetch that
  raised, which \<open>run\<close> does not catch.
\<close>

definition run :: "notify_network \<Rightarrow> service \<Rightarrow> delivery_row list option \<Rightarrow> service option" where
  "run net s fetched =
     (case fetched of
        None \<Rightarrow> None
      | Some df \<Rightarrow> Some (foldl (notify_row net) s df))"

section \<open>Notions used by the properties\<close>

text \<open>The invoice line that stands for a whole batch group.\<close>

definition group_line :: "batch_group \<Rightarrow> invoice_line" where
  "group_line g = \<lparr>line_batchId = g_batchId g, countPuSent = g_countPu g\<rparr>"

text \<open>All lines of a list of invoices, read invoice by invoice.\<close>

definition all_lines :: "invoice list \<Rightarrow> invoice_line list" where
  "all_lines invs = concat (map tbrDtoList invs)"

text \<open>Every invoice of the list holds exactly \<open>n\<close> lines.\<close>

definition full_invoices :: "int \<Rightarrow> invoice list \<Rightarrow> bool" where
  "full_invoices n invs = list_all (\<lambda>p. int (length (tbrDtoList p)) = n) invs"

text \<open>
  No invoice holds more than \<open>n\<close> lines and every invoice but the last one holds
  exactly \<open>n\<close>.
\<close>

definition well_filled :: "int \<Rightarrow> invoice list \<Rightarrow> bool" where
  "well_filled n invs =
     list_all (\<lambda>i. int (length (tbrDtoList (invs ! i))) \<le> n \<and>
                  (Suc i < length invs \<longrightarrow> int (length (tbrDtoList (invs ! i))) = n))
       [0 ..< length invs]"



section \<open>Sample inputs\<close>

definition fixed_clock :: clock where
  "fixed_clock c = (''2024-01-01T00:00:00+00:00'', ''20240101'')"

text \<open>A stock row of product 1 in warehouse 1 for contractor 9, without a note.\<close>

definition stock :: "rat \<Rightarrow> int \<Rightarrow> int option \<Rightarrow> stock_row" where
  "stock q b v =
     \<lparr>countPu = Some q, batchId = Some b, patId = Some 1, warehouseId = Some 1,
      contractorId = Some 9, validFrom = v, note_written_off = False\<rparr>"


text \<open>Batch 1 is valid from instant 200, batch 2 from the earlier instant 100.\<close>

definition two_batches :: "stock_row list" where
  "two_batches = [stock 3 1 (Some 200), stock 2 2 (Some 100)]"


text \<open>Batches 1 and 3 have no parseable validity date, batch 2 has one.\<close>

definition undated_first :: "stock_row list" where
  "undated_first = [stock 1 1 None, stock 1 2 (Some 100), stock 1 3 None]"

text \<open>A remote side that accepts every request and gives every draft the id 42.\<close>

definition always_accepts :: network where
  "always_accepts n rq = Reply (Some 42)"

text \<open>A remote side that answers every notification with status 200.\<close>

definition status_ok :: notify_network where
  "status_ok n rq = Status 200"

definition unparseable_destination :: "delivery_row list" where
  "unparseable_destination = [\<lparr>row_id = Num 5, row_destinationWarehouseId = Str ''abc''\<rparr>]"

definition missing_destination :: "delivery_row list" where
  "missing_destination =
     [\<lparr>row_id = Num 5, row_destinationWarehouseId = Num 77\<rparr>,
      \<lparr>row_id = Num 6, row_destinationWarehouseId = Null\<rparr>]"

section \<open>Properties of the stock batcher\<close>

subsection \<open>The placement loop\<close>

lemma place_batch_done: "place_batch clk ipi row 0 s = Some s"
  by (subst place_batch.simps) simp

lemma place_batch_fits:
  assumes "0 < q" "int (length (current_items s)) < ipi"
  shows "place_batch clk ipi row q s =
     Some (if ipi \<le> int (length (current_items s)) + 1
           then close_invoice clk row
                  (s\<lparr>current_items := current_items s @
                       [\<lparr>line_batchId = g_batchId row, countPuSent = q\<rparr>]\<rparr>)
           else s\<lparr>current_items := current_items s @
                    [\<lparr>line_batchId = g_batchId row, countPuSent = q\<rparr>]\<rparr>)"
  apply (subst place_batch.simps)
  using assms apply (simp add: Let_def place_batch_done)
  done


lemma close_invoice_fields:
  "invoices (close_invoice clk row s) =
     invoices s @ [fst (create_invoice_payload clk (current_items s) row (counter s))]"
  "current_items (close_invoice clk row s) = []"
  "counter (close_invoice clk row s) = counter s + 1"
  "tbrDtoList (fst (create_invoice_payload clk items row c)) = items"
  by (simp_all add: close_invoice_def create_invoice_payload_def)

lemma full_invoices_append:
  "full_invoices n (xs @ ys) = (full_invoices n xs \<and> full_invoices n ys)"
  by (simp add: full_invoices_def)

lemma place_batch_step:
  assumes "0 < g_countPu row" "int (length (current_items s)) < ipi"
  shows "\<exists>s'. place_batch clk ipi row (g_countPu row) s = Some s'
     \<and> int (length (current_items s')) < ipi
     \<and> all_lines (invoices s') @ current_items s' =
         all_lines (invoices s) @ current_items s @ [group_line row]
     \<and> (\<exists>new. invoices s' = invoices s @ new \<and> full_invoices ipi new)"
proof (cases "ipi \<le> int (length (current_items s)) + 1")
  case True
  with assms have len: "int (length (current_items s)) + 1 = ipi" by simp
  have "place_batch clk ipi row (g_countPu row) s =
      Some (close_invoice clk row (s\<lparr>current_items := current_items s @ [group_line row]\<rparr>))"
    using place_batch_fits[OF assms, of clk row] True by (simp add: group_line_def)
  moreover have "full_invoices ipi
      [fst (create_invoice_payload clk (current_items s @ [group_line row]) row (counter s))]"
    using len by (simp add: full_invoices_def close_invoice_fields)
  ultimately show ?thesis using assms
    by (simp add: close_invoice_fields all_lines_def)
next
  case False
  have "place_batch clk ipi row (g_countPu row) s =
      Some (s\<lparr>current_items := current_items s @ [group_line row]\<rparr>)"
    using place_batch_fits[OF assms, of clk row] False by (simp add: group_line_def)
  moreover have "full_invoices ipi []" by (simp add: full_invoices_def)
  ultimately show ?thesis using False
    by (simp add: all_lines_def)
qed

lemma walk_groups_total:
  assumes "\<forall>g\<in>set gs. 0 < g_countPu g" "int (length (current_items s)) < ipi"
  shows "\<exists>s'. walk_groups clk ipi gs s = Some s'
     \<and> int (length (current_items s')) < ipi
     \<and> all_lines (invoices s') @ current_items s' =
         all_lines (invoices s) @ current_items s @ map group_line gs
     \<and> (\<exists>new. invoices s' = invoices s @ new \<and> full_invoices ipi new)"
  using assms
proof (induction gs arbitrary: s)
  case Nil
  have "full_invoices ipi []" by (simp add: full_invoices_def)
  with Nil show ?case by simp
next
  case (Cons g gs)
  have pos: "0 < g_countPu g" using Cons.prems by simp
  obtain s1 new1 where s1: "place_batch clk ipi g (g_countPu g) s = Some s1"
    "int (length (current_items s1)) < ipi"
    "all_lines (invoices s1) @ current_items s1 =
       all_lines (invoices s) @ current_items s @ [group_line g]"
    "invoices s1 = invoices s @ new1" "full_invoices ipi new1"
    using place_batch_step[OF pos Cons.prems(2), of clk] by blast
  have "\<forall>g\<in>set gs. 0 < g_countPu g" using Cons.prems by simp
  from Cons.IH[OF this s1(2)]
  obtain s2 new2 where s2: "walk_groups clk ipi gs s1 = Some s2"
    "int (length (current_items s2)) < ipi"
    "all_lines (invoices s2) @ current_items s2 =
       all_lines (invoices s1) @ current_items s1 @ map group_line gs"
    "invoices s2 = invoices s1 @ new2" "full_invoices ipi new2"
    by blast
  have a: "walk_groups clk ipi (g # gs) s = Some s2" using s1(1) s2(1) by simp
  have "all_lines (invoices s2) @ current_items s2 =
      (all_lines (invoices s1) @ current_items s1) @ map group_line gs"
    using s2(3) by simp
  also have "\<dots> = all_lines (invoices s) @ current_items s @ map group_line (g # gs)"
    unfolding s1(3) by simp
  finally have b: "all_lines (invoices s2) @ current_items s2 =
      all_lines (invoices s) @ current_items s @ map group_line (g # gs)" .
  have c: "invoices s2 = invoices s @ (new1 @ new2)" using s1(4) s2(4) by simp
  have d: "full_invoices ipi (new1 @ new2)"
    using s1(5) s2(5) by (simp add: full_invoices_append)
  show ?case using a s2(2) b c d by blast
qed


subsection \<open>The shape of the result list\<close>

lemma well_filled_iff:
  "well_filled n invs \<longleftrightarrow>
     (\<forall>i < length invs. int (length (tbrDtoList (invs ! i))) \<le> n \<and>
        (Suc i < length invs \<longrightarrow> int (length (tbrDtoList (invs ! i))) = n))"
  by (auto simp: well_filled_def list_all_iff)

lemma well_filled_full: "full_invoices n invs \<Longrightarrow> well_filled n invs"
  by (simp add: full_invoices_def well_filled_iff list_all_length)

lemma well_filled_snoc:
  "full_invoices n invs \<Longrightarrow> int (length (tbrDtoList p)) \<le> n \<Longrightarrow> well_filled n (invs @ [p])"
  by (auto simp: full_invoices_def well_filled_iff list_all_length nth_append)

lemma well_filled_take: "well_filled n invs \<Longrightarrow> well_filled n (take k invs)"
  by (simp add: well_filled_iff)

lemma limit_invoices_take: "\<exists>k. limit_invoices mx invs = take k invs"
proof (cases mx)
  case None
  have "limit_invoices None invs = take (length invs) invs"
    by (simp add: limit_invoices_def)
  with None show ?thesis by blast
next
  case (Some n)
  show ?thesis
  proof (cases "n = 0")
    case True
    have "limit_invoices (Some 0) invs = take (length invs) invs"
      by (simp add: limit_invoices_def)
    with Some True show ?thesis by blast
  next
    case False
    with Some show ?thesis by (auto simp: limit_invoices_def py_slice_to_def)
  qed
qed

lemma form_invoices_total:
  assumes "1 \<le> ipi" "\<forall>g\<in>set gs. 0 < g_countPu g"
  shows "\<exists>s. form_invoices clk ipi gs c = Some s
      \<and> all_lines (invoices s) = map group_line gs
      \<and> well_filled ipi (invoices s)"
proof -
  let ?s0 = "\<lparr>invoices = [], current_items = [], counter = c\<rparr>"
  have "int (length (current_items ?s0)) < ipi" using assms(1) by simp
  from walk_groups_total[OF assms(2) this, of clk]
  obtain s' where s': "walk_groups clk ipi gs ?s0 = Some s'"
    "int (length (current_items s')) < ipi"
    "all_lines (invoices s') @ current_items s' = map group_line gs"
    "full_invoices ipi (invoices s')"
    by (auto simp: all_lines_def)
  show ?thesis
  proof (cases "current_items s' = []")
    case True
    then have "form_invoices clk ipi gs c = Some s'"
      using s'(1) by (simp add: form_invoices_def)
    then show ?thesis using s'(3,4) True well_filled_full by auto
  next
    case False
    let ?s = "close_invoice clk (last gs) s'"
    have f: "form_invoices clk ipi gs c = Some ?s"
      using s'(1) False by (simp add: form_invoices_def)
    have l: "all_lines (invoices ?s) = map group_line gs"
      using s'(3) by (simp add: close_invoice_fields all_lines_def)
    have w: "well_filled ipi (invoices ?s)"
      unfolding close_invoice_fields
      by (rule well_filled_snoc) (use s'(2,4) in \<open>simp_all add: close_invoice_fields\<close>)
    show ?thesis using f l w by blast
  qed
qed

subsection \<open>Batch groups\<close>



lemma sum_list_pos_rat: "xs \<noteq> [] \<Longrightarrow> \<forall>x\<in>set xs. (0::rat) < x \<Longrightarrow> 0 < sum_list xs"
proof (induction xs)
  case Nil
  then show ?case by simp
next
  case (Cons a xs)
  show ?case
  proof (cases "xs = []")
    case True
    with Cons.prems show ?thesis by simp
  next
    case False
    with Cons have "0 < sum_list xs" by simp
    moreover have "0 < a" using Cons.prems by simp
    ultimately show ?thesis by simp
  qed
qed

lemma set_group_keys: "set (group_keys df) = {k. \<exists>r\<in>set df. group_key r = Some k}"
  by (force simp: group_keys_def List.map_filter_def image_iff)


lemma group_keys_Nil: "group_keys [] = []"
  by (simp add: group_keys_def List.map_filter_def)

lemma batch_groups_filtered_Nil: "filter_rows df = [] \<Longrightarrow> batch_groups df = []"
  by (simp add: batch_groups_def groupby_agg_def sort_values_def group_keys_Nil)

lemma g_countPu_agg:
  "g_countPu (agg_group df k) = sum_list (map count_or_zero (members df k))"
  by (cases k) (simp add: agg_group_def)


lemma sorted_rows_set: "set (sort_values (filter_rows df)) = set (filter_rows df)"
  by (simp add: sort_values_def)

lemma filter_rows_positive: "r \<in> set (filter_rows df) \<Longrightarrow> 0 < count_or_zero r"
  by (auto simp: filter_rows_def positive_count_def count_or_zero_def split: option.splits)

lemma batch_groups_positive:
  assumes "g \<in> set (batch_groups df)"
  shows "0 < g_countPu g"
proof -
  let ?d = "sort_values (filter_rows df)"
  from assms obtain k where k: "k \<in> set (group_keys ?d)" "g = agg_group ?d k"
    by (auto simp: batch_groups_def groupby_agg_def)
  from k(1) obtain r where r: "r \<in> set ?d" "group_key r = Some k"
    by (auto simp: set_group_keys)
  then have ne: "members ?d k \<noteq> []"
    by (auto simp: members_def filter_empty_conv)
  have "\<forall>x\<in>set (map count_or_zero (members ?d k)). 0 < x"
    using filter_rows_positive[of _ df] by (auto simp: members_def sorted_rows_set)
  with ne have "0 < sum_list (map count_or_zero (members ?d k))"
    by (intro sum_list_pos_rat) simp_all
  then show ?thesis by (simp add: k(2) g_countPu_agg)
qed

lemma prepare_invoices_unlimited:
  assumes "1 \<le> ipi"
  shows "\<exists>full c'. prepare_invoices clk c df ipi mx = Some (limit_invoices mx full, c')
     \<and> all_lines full = map group_line (batch_groups df)
     \<and> well_filled ipi full"
proof (cases "filter_rows df = []")
  case True
  have "limit_invoices mx [] = []"
    by (cases mx) (simp_all add: limit_invoices_def py_slice_to_def)
  then have a: "prepare_invoices clk c df ipi mx = Some (limit_invoices mx [], c)"
    using True by (simp add: prepare_invoices_def)
  have b: "all_lines [] = map group_line (batch_groups df)"
    using True by (simp add: batch_groups_filtered_Nil all_lines_def)
  have c: "well_filled ipi []" by (simp add: well_filled_iff)
  show ?thesis using a b c by blast
next
  case False
  have "\<forall>g\<in>set (batch_groups df). 0 < g_countPu g"
    using batch_groups_positive by blast
  from form_invoices_total[OF assms this, of clk c]
  obtain s where s: "form_invoices clk ipi (batch_groups df) c = Some s"
    "all_lines (invoices s) = map group_line (batch_groups df)"
    "well_filled ipi (invoices s)" by blast
  have "prepare_invoices clk c df ipi mx = Some (limit_invoices mx (invoices s), counter s)"
    using False s(1) by (simp add: prepare_invoices_def)
  with s(2,3) show ?thesis by blast
qed

subsection \<open>Evaluation on the sample inputs\<close>

lemmas frame_defs =
  batch_groups_def groupby_agg_def group_keys_def sort_values_def filter_rows_def stock_def
  positive_count_def fifo_key_def na_last_def group_key_def List.map_filter_def agg_group_def
  members_def count_or_zero_def


lemma batch_groups_two_batches:
  "batch_groups two_batches =
     [\<lparr>g_batchId = 1, g_patId = 1, g_warehouseId = 1, g_contractorId = 9,
       g_countPu = 3, g_validFrom = Some 200\<rparr>,
      \<lparr>g_batchId = 2, g_patId = 1, g_warehouseId = 1, g_contractorId = 9,
       g_countPu = 2, g_validFrom = Some 100\<rparr>]"
  by (simp add: two_batches_def frame_defs)



lemma filter_rows_two_batches: "filter_rows two_batches \<noteq> []"
  by (simp add: two_batches_def frame_defs)

lemma sort_values_undated_first:
  "sort_values undated_first = [stock 1 2 (Some 100), stock 1 1 None, stock 1 3 None]"
  by (simp add: undated_first_def frame_defs)

text \<open>The two batches with room for two lines in an invoice: one invoice.\<close>

lemma two_batches_unlimited:
  "prepare_invoices fixed_clock 1 two_batches 2 None =
     Some ([\<lparr>docNum = (''20240101'', 1), docDate = ''2024-01-01T00:00:00+00:00'',
             receiverContractorId = 9, sourceWarehouseId = 1,
             tbrDtoList = [\<lparr>line_batchId = 1, countPuSent = 3\<rparr>,
                           \<lparr>line_batchId = 2, countPuSent = 2\<rparr>]\<rparr>], 2)"
  by (simp add: prepare_invoices_def form_invoices_def batch_groups_two_batches
        place_batch_fits close_invoice_def create_invoice_payload_def fixed_clock_def
        limit_invoices_def)
     (simp add: two_batches_def frame_defs)

text \<open>The two batches with room for one line in an invoice: two invoices.\<close>

lemma two_batches_single_lines:
  "form_invoices fixed_clock 1 (batch_groups two_batches) 1 =
     Some \<lparr>invoices =
             [\<lparr>docNum = (''20240101'', 1), docDate = ''2024-01-01T00:00:00+00:00'',
               receiverContractorId = 9, sourceWarehouseId = 1,
               tbrDtoList = [\<lparr>line_batchId = 1, countPuSent = 3\<rparr>]\<rparr>,
              \<lparr>docNum = (''20240101'', 2), docDate = ''2024-01-01T00:00:00+00:00'',
               receiverContractorId = 9, sourceWarehouseId = 1,
               tbrDtoList = [\<lparr>line_batchId = 2, countPuSent = 2\<rparr>]\<rparr>],
           current_items = [], counter = 3\<rparr>"
  by (simp add: form_invoices_def batch_groups_two_batches
        place_batch_fits close_invoice_def create_invoice_payload_def fixed_clock_def)

subsection \<open>One line for each batch group\<close>



subsection \<open>The line cap\<close>

text \<open>
  Claim C2. For every input, every \<open>items_per_invoice \<ge> 1\<close> and every limit on the
  number of invoices, \<open>prepare_invoices\<close> returns, every invoice it returns has at most
  \<open>items_per_invoice\<close> lines, and every invoice but the last one has exactly
  \<open>items_per_invoice\<close> lines.
\<close>

theorem line_cap_respected:
  assumes "1 \<le> items_per_invoice"
  shows "\<exists>invs c'. prepare_invoices clk c df items_per_invoice max_invoices = Some (invs, c')
     \<and> (\<forall>i < length invs.
           int (length (tbrDtoList (invs ! i))) \<le> items_per_invoice \<and>
           (Suc i < length invs \<longrightarrow>
              int (length (tbrDtoList (invs ! i))) = items_per_invoice))"
proof -
  obtain full c' where s:
    "prepare_invoices clk c df items_per_invoice max_invoices =
       Some (limit_invoices max_invoices full, c')"
    "well_filled items_per_invoice full"
    using prepare_invoices_unlimited[OF assms] by blast
  obtain k where "limit_invoices max_invoices full = take k full"
    using limit_invoices_take by blast
  with s(2) have "well_filled items_per_invoice (limit_invoices max_invoices full)"
    by (simp add: well_filled_take)
  with s(1) show ?thesis by (simp add: well_filled_iff)
qed

text \<open>
  Two batches with one line for each invoice and a limit of five invoices: two invoices
  of one line each.
\<close>

theorem line_cap_respected_witness:
  "(1::int) \<le> 1 \<and>
   (\<exists>invs c'. prepare_invoices fixed_clock 1 two_batches 1 (Some 5) = Some (invs, c')
      \<and> map (\<lambda>p. length (tbrDtoList p)) invs = [1, 1])"
  using line_cap_respected[of 1 fixed_clock 1 two_batches "Some 5"]
  unfolding prepare_invoices_def two_batches_single_lines
  by (simp add: filter_rows_two_batches limit_invoices_def py_slice_to_def)

subsection \<open>Termination\<close>




subsection \<open>Order of the lines\<close>

text \<open>
  Claim C3 asks that the lines of the result, read invoice by invoice, follow the
  non-decreasing order of the pairs (validity date, batch id) of their groups. The code
  does not do this: \<open>groupby\<close> orders the groups by their key, batch id first, and the
  FIFO order that \<open>sort_values\<close> had set up is gone. On \<open>two_batches\<close> the line of
  batch 1, valid from 200, comes before the line of batch 2, valid from 100.
\<close>

theorem groups_not_in_fifo_order:
  "prepare_invoices fixed_clock 1 two_batches 2 None =
     Some ([\<lparr>docNum = (''20240101'', 1), docDate = ''2024-01-01T00:00:00+00:00'',
             receiverContractorId = 9, sourceWarehouseId = 1,
             tbrDtoList = [\<lparr>line_batchId = 1, countPuSent = 3\<rparr>,
                           \<lparr>line_batchId = 2, countPuSent = 2\<rparr>]\<rparr>], 2)
   \<and> map (\<lambda>g. (g_validFrom g, g_batchId g)) (batch_groups two_batches) =
       [(Some 200, 1), (Some 100, 2)]"
  using two_batches_unlimited by (simp add: batch_groups_two_batches)

subsection \<open>Rows without a validity date\<close>

text \<open>
  Claim C4, as stated, fails: in the FIFO sort the rows without a parseable validity
  date do not come first. The rows of batches 1 and 3 have none and are sorted behind
  the row of batch 2.
\<close>

theorem undated_rows_first_counterexample:
  "validFrom (stock 1 1 None) = None \<and> validFrom (stock 1 2 (Some 100)) = Some 100
   \<and> sort_values [stock 1 1 None, stock 1 2 (Some 100), stock 1 3 None] =
       [stock 1 2 (Some 100), stock 1 1 None, stock 1 3 None]"
  using sort_values_undated_first by (simp add: undated_first_def stock_def)

text \<open>
  Claim C4, amended. In the FIFO sort every row without a parseable validity date
  comes after every row that has one: behind a row without a date there are only rows
  without a date.
\<close>

theorem undated_rows_sort_last:
  assumes "i < j" "j < length (sort_values df)" "validFrom (sort_values df ! i) = None"
  shows "validFrom (sort_values df ! j) = None"
proof (rule ccontr)
  assume "validFrom (sort_values df ! j) \<noteq> None"
  then obtain v where v: "validFrom (sort_values df ! j) = Some v" by blast
  have "sorted (map fifo_key (sort_values df))"
    by (simp add: sort_values_def)
  then have "map fifo_key (sort_values df) ! i \<le> map fifo_key (sort_values df) ! j"
    using assms(1,2) by (intro sorted_nth_mono) simp_all
  then have "fifo_key (sort_values df ! i) \<le> fifo_key (sort_values df ! j)"
    using assms(1,2) by simp
  then show False
    using assms(3) v by (simp add: fifo_key_def na_last_def less_eq_prod_def)
qed

theorem undated_rows_sort_last_witness:
  "(1::nat) < 2 \<and> 2 < length (sort_values undated_first)
   \<and> validFrom (sort_values undated_first ! 1) = None
   \<and> validFrom (sort_values undated_first ! 2) = None"
  using undated_rows_sort_last[of 1 2 undated_first]
  by (simp add: sort_values_undated_first stock_def)

subsection \<open>Conservation of quantity\<close>












subsection \<open>The limit on the number of invoices\<close>

text \<open>
  A limit \<open>n \<ge> 1\<close> keeps at most \<open>n\<close> invoices, and the invoices kept are the first
  ones of the list formed without a limit, each one whole.
\<close>

lemma positive_limit_respected:
  assumes "1 \<le> ipi" "1 \<le> n"
  shows "\<exists>invs full c1 c2. prepare_invoices clk c df ipi (Some n) = Some (invs, c1)
     \<and> prepare_invoices clk c df ipi None = Some (full, c2)
     \<and> int (length invs) \<le> n \<and> invs = take (length invs) full"
proof -
  obtain full c2 where f: "prepare_invoices clk c df ipi None = Some (full, c2)"
    using prepare_invoices_unlimited[OF assms(1), of clk c df None]
    by (auto simp: limit_invoices_def)
  have g: "prepare_invoices clk c df ipi (Some n) = Some (take (nat n) full, c2)"
    using f assms(2)
    by (auto simp: prepare_invoices_def limit_invoices_def py_slice_to_def
        split: if_splits option.splits)
  have "int (length (take (nat n) full)) \<le> n" using assms(2) by simp
  moreover have "take (nat n) full = take (length (take (nat n) full)) full"
    by (cases "length full \<le> nat n") (simp_all add: min_def)
  ultimately show ?thesis using f g by blast
qed

text \<open>
  Claim C6 asks that a limit of \<open>N\<close> invoices leaves at most \<open>N\<close> invoices in the
  result. The code tests the limit for truth, \<open>if max_invoices:\<close>, and a limit of 0 is
  false like \<open>None\<close>: with the limit 0 the two invoices formed from \<open>two_batches\<close> are
  both returned.
\<close>

theorem limit_zero_not_applied:
  "\<exists>invs c'. prepare_invoices fixed_clock 1 two_batches 1 (Some 0) = Some (invs, c')
     \<and> length invs = 2"
  unfolding prepare_invoices_def two_batches_single_lines
  by (simp add: filter_rows_two_batches limit_invoices_def)

section \<open>Properties of the service and of the notifier\<close>

subsection \<open>Dry run\<close>

text \<open>
  Claim C7. For the same rows, clock, remote side and configuration, the run with
  \<open>execute = False\<close> returns the same list of invoices as the run with
  \<open>execute = True\<close> (and neither returns when the other does not); what the dry run
  returns has an empty list of results and no request was issued. The dry run returns
  for every \<open>items_per_invoice \<ge> 1\<close>.
\<close>

theorem dry_run_same_invoices_no_requests:
  "(1 \<le> items_per_invoice \<longrightarrow>
      (\<exists>out. run_retail_write_off_service net clk df items_per_invoice max_invoices False
                = Some out))
   \<and> map_option out_invoices
        (run_retail_write_off_service net clk df items_per_invoice max_invoices False) =
     map_option out_invoices
        (run_retail_write_off_service net clk df items_per_invoice max_invoices True)
   \<and> (\<forall>out. run_retail_write_off_service net clk df items_per_invoice max_invoices False
               = Some out
         \<longrightarrow> out_results out = [] \<and> out_requests out = [])"
proof -
  let ?dry = "run_retail_write_off_service net clk df items_per_invoice max_invoices False"
  let ?live = "run_retail_write_off_service net clk df items_per_invoice max_invoices True"
  have returns: "\<exists>out. ?dry = Some out" if cap: "1 \<le> items_per_invoice"
  proof -
    obtain res where "prepare_invoices clk 1 df items_per_invoice max_invoices = Some res"
      using prepare_invoices_unlimited[OF cap, of clk 1 df max_invoices] by blast
    then show ?thesis
      by (cases res) (simp add: run_retail_write_off_service_def)
  qed
  have same: "map_option out_invoices ?dry = map_option out_invoices ?live"
    by (simp add: run_retail_write_off_service_def Let_def split: option.splits prod.splits)
  have quiet: "out_results out = [] \<and> out_requests out = []" if "?dry = Some out" for out
    using that
    by (auto simp: run_retail_write_off_service_def split: option.splits prod.splits if_splits)
  show ?thesis using returns same quiet by blast
qed

theorem dry_run_same_invoices_no_requests_witness:
  "(1::int) \<le> 2
   \<and> map_option out_invoices
       (run_retail_write_off_service always_accepts fixed_clock two_batches 2 None True) =
       Some [\<lparr>docNum = (''20240101'', 1), docDate = ''2024-01-01T00:00:00+00:00'',
             receiverContractorId = 9, sourceWarehouseId = 1,
             tbrDtoList = [\<lparr>line_batchId = 1, countPuSent = 3\<rparr>,
                           \<lparr>line_batchId = 2, countPuSent = 2\<rparr>]\<rparr>]
   \<and> run_retail_write_off_service always_accepts fixed_clock two_batches 2 None False =
       Some \<lparr>out_invoices =
               [\<lparr>docNum = (''20240101'', 1), docDate = ''2024-01-01T00:00:00+00:00'',
                 receiverContractorId = 9, sourceWarehouseId = 1,
                 tbrDtoList = [\<lparr>line_batchId = 1, countPuSent = 3\<rparr>,
                               \<lparr>line_batchId = 2, countPuSent = 2\<rparr>]\<rparr>],
             out_results = [], out_requests = []\<rparr>"
  using dry_run_same_invoices_no_requests[of 2 always_accepts fixed_clock two_batches None]
  unfolding run_retail_write_off_service_def two_batches_unlimited
  by simp

text \<open>The live run of the same input does post: two requests for the one invoice.\<close>

lemma live_run_posts:
  "map_option (\<lambda>out. length (out_requests out))
     (run_retail_write_off_service always_accepts fixed_clock two_batches 2 None True) = Some 2"
  unfolding run_retail_write_off_service_def two_batches_unlimited
  by (simp add: submit_invoice_def post_def always_accepts_def record_result_def)

subsection \<open>The notifier's loop\<close>

lemma notify_row_attempts:
  "attempts (notify_row net s r) = attempts s @ [(row_id r, dest_wh_of r)]"
  by (simp add: notify_row_def notify_delivered_def Let_def
      split: option.splits outcome.splits)

lemma notify_row_sent:
  "sent (notify_row net s r) =
     sent s @ (case py_int (dest_wh_of r) of None \<Rightarrow> []
               | Some w \<Rightarrow> [\<lparr>oid = row_id r, destinationWarehouseId = w\<rparr>])"
  by (simp add: notify_row_def notify_delivered_def Let_def
      split: option.splits outcome.splits)

lemma notify_row_skipped: "skipped_count (notify_row net s r) = skipped_count s"
  by (simp add: notify_row_def notify_delivered_def Let_def
      split: option.splits outcome.splits)

lemma notify_row_counted:
  "success_count (notify_row net s r) + error_count (notify_row net s r) =
     success_count s + error_count s + 1"
  by (simp add: notify_row_def notify_delivered_def Let_def
      split: option.splits outcome.splits)

lemma notify_rows_attempts:
  "attempts (foldl (notify_row net) s df) =
     attempts s @ map (\<lambda>r. (row_id r, dest_wh_of r)) df"
  by (induction df arbitrary: s) (simp_all add: notify_row_attempts)

lemma notify_rows_sent_mono:
  "set (sent s) \<subseteq> set (sent (foldl (notify_row net) s df))"
proof (induction df arbitrary: s)
  case Nil
  show ?case by simp
next
  case (Cons r df)
  have "set (sent s) \<subseteq> set (sent (notify_row net s r))"
    by (simp add: notify_row_sent)
  also have "\<dots> \<subseteq> set (sent (foldl (notify_row net) (notify_row net s r) df))"
    by (rule Cons.IH)
  finally show ?case by simp
qed

lemma notify_rows_sent:
  assumes "r \<in> set df" "py_int (dest_wh_of r) = Some w"
  shows "\<lparr>oid = row_id r, destinationWarehouseId = w\<rparr>
           \<in> set (sent (foldl (notify_row net) s df))"
  using assms(1)
proof (induction df arbitrary: s)
  case Nil
  then show ?case by simp
next
  case (Cons a df)
  show ?case
  proof (cases "r = a")
    case True
    have "\<lparr>oid = row_id r, destinationWarehouseId = w\<rparr> \<in> set (sent (notify_row net s a))"
      using True assms(2) by (simp add: notify_row_sent)
    then show ?thesis using notify_rows_sent_mono[of "notify_row net s a" net df] by auto
  next
    case False
    with Cons.prems have "r \<in> set df" by simp
    from Cons.IH[OF this] show ?thesis by simp
  qed
qed

lemma notify_rows_skipped:
  "skipped_count (foldl (notify_row net) s df) = skipped_count s"
  by (induction df arbitrary: s) (simp_all add: notify_row_skipped)

lemma notify_rows_counted:
  "success_count (foldl (notify_row net) s df) + error_count (foldl (notify_row net) s df) =
     success_count s + error_count s + length df"
proof (induction df arbitrary: s)
  case Nil
  show ?case by simp
next
  case (Cons r df)
  show ?case using Cons.IH[of "notify_row net s r"] notify_row_counted[of net s r] by simp
qed

lemma fallback_dest:
  "row_destinationWarehouseId r = Null \<or> row_destinationWarehouseId r = Num 0
     \<or> row_destinationWarehouseId r = Str ''0'' \<Longrightarrow> dest_wh_of r = Num 1085300"
  by (auto simp: dest_wh_of_def isna_def)

subsection \<open>The fallback warehouse\<close>

text \<open>
  Claim C8, as stated, fails for a destination warehouse id that does not parse: the
  string \<open>abc\<close> is neither null nor zero, it is passed on unchanged, \<open>int\<close> raises
  inside \<open>notify_delivered\<close> before anything is posted, and the row is counted as an
  error. No fallback id is put in and no notification is issued.
\<close>

theorem unparseable_destination_counterexample:
  "run status_ok new_service (Some unparseable_destination) =
     Some \<lparr>success_count = 0, error_count = 1, skipped_count = 0,
           attempts = [(Num 5, Str ''abc'')], sent = []\<rparr>"
  by (simp add: run_def unparseable_destination_def new_service_def notify_row_def
      notify_delivered_def dest_wh_of_def isna_def py_int_def int_of_string_def strip_def
      is_space_def unsigned_int_def is_digit_def)

text \<open>
  Claim C8, amended. For every fetched row whose destination warehouse id is missing
  (null) or zero (the number 0 or the string \<open>0\<close>), the notifier calls
  \<open>notify_delivered\<close> with the fallback id 1085300, the notification for that row is
  posted with the fallback id, and the row is not counted as skipped.
\<close>

theorem fallback_warehouse_notified:
  assumes "i < length df"
    and "row_destinationWarehouseId (df ! i) = Null
         \<or> row_destinationWarehouseId (df ! i) = Num 0
         \<or> row_destinationWarehouseId (df ! i) = Str ''0''"
  shows "\<exists>s. run net new_service (Some df) = Some s
     \<and> attempts s ! i = (row_id (df ! i), Num 1085300)
     \<and> \<lparr>oid = row_id (df ! i), destinationWarehouseId = 1085300\<rparr> \<in> set (sent s)
     \<and> skipped_count s = 0"
proof -
  let ?s = "foldl (notify_row net) new_service df"
  have d: "dest_wh_of (df ! i) = Num 1085300" using assms(2) by (rule fallback_dest)
  have a: "attempts ?s ! i = (row_id (df ! i), Num 1085300)"
    using assms(1) d by (simp add: notify_rows_attempts new_service_def)
  have "df ! i \<in> set df" using assms(1) by simp
  moreover have "py_int (dest_wh_of (df ! i)) = Some 1085300" by (simp add: d py_int_def)
  ultimately have b:
    "\<lparr>oid = row_id (df ! i), destinationWarehouseId = 1085300\<rparr> \<in> set (sent ?s)"
    by (rule notify_rows_sent)
  have c: "skipped_count ?s = 0" by (simp add: notify_rows_skipped new_service_def)
  show ?thesis using a b c by (simp add: run_def)
qed

theorem fallback_warehouse_notified_witness:
  "(1::nat) < length missing_destination
   \<and> row_destinationWarehouseId (missing_destination ! 1) = Null
   \<and> run status_ok new_service (Some missing_destination) =
       Some \<lparr>success_count = 2, error_count = 0, skipped_count = 0,
             attempts = [(Num 5, Num 77), (Num 6, Num 1085300)],
             sent = [\<lparr>oid = Num 5, destinationWarehouseId = 77\<rparr>,
                     \<lparr>oid = Num 6, destinationWarehouseId = 1085300\<rparr>]\<rparr>"
  using fallback_warehouse_notified[of 1 missing_destination status_ok]
  by (simp add: run_def missing_destination_def new_service_def notify_row_def
      notify_delivered_def dest_wh_of_def isna_def py_int_def status_ok_def)

subsection \<open>No row is skipped\<close>

text \<open>
  Claim C10. On every fetched table \<open>run\<close> calls \<open>notify_delivered\<close> exactly once for
  each row, in the order of the rows and with the row's invoice id, whether the id is
  null or not; the skipped count at the end is zero, and every row is counted either as
  a success or as an error.
\<close>

theorem no_row_skipped:
  "\<exists>s. run net new_service (Some df) = Some s
     \<and> map fst (attempts s) = map row_id df
     \<and> skipped_count s = 0
     \<and> success_count s + error_count s = length df"
  by (simp add: run_def notify_rows_attempts notify_rows_skipped notify_rows_counted
      new_service_def comp_def)

theorem no_row_skipped_witness:
  "run status_ok new_service (Some missing_destination) =
     Some \<lparr>success_count = 2, error_count = 0, skipped_count = 0,
           attempts = [(Num 5, Num 77), (Num 6, Num 1085300)],
           sent = [\<lparr>oid = Num 5, destinationWarehouseId = 77\<rparr>,
                   \<lparr>oid = Num 6, destinationWarehouseId = 1085300\<rparr>]\<rparr>
   \<and> length missing_destination = 2"
  using no_row_skipped[of status_ok missing_destination]
  by (simp add: run_def missing_destination_def new_service_def notify_row_def
      notify_delivered_def dest_wh_of_def isna_def py_int_def status_ok_def)

end
